theory Spec2Isabelle
  imports Complex_Main "HOL-Library.Product_Lexorder" "HOL-Library.Option_ord"
begin

section \<open>Forecast builder: \<^verbatim>\<open>scripts/create_2025_forecast.py\<close>\<close>

text \<open>
  The script is one function, \<^verbatim>\<open>main\<close>, over a pandas table. The embedding keeps its
  steps in the order of the source, one definition per statement that changes the table.

  What pandas and numpy do is modelled as follows.
  \<^item> A column that may hold NaN/NaT/None has an \<open>option\<close> type; \<open>None\<close> is the missing value.
  \<^item> A cell of the raw date column is classified by what
    \<^verbatim>\<open>pd.to_datetime(..., errors='coerce')\<close> makes of it, a cell of the raw volume column by
    what \<^verbatim>\<open>pd.to_numeric(..., errors='coerce')\<close> makes of it.
  \<^item> A float64 value other than NaN is a value of the type \<open>float64\<close>: a finite number or
    an infinity. NaN is the missing value of a numeric column.
  \<^item> The float64 multiplication of numpy is a parameter \<open>mul\<close> of the model, from two
    values that are not NaN to a value or NaN: nothing is assumed about its rounding or its
    overflow. A product with NaN is NaN.
  \<^item> The global generator seeded by \<^verbatim>\<open>np.random.seed(42)\<close> is a parameter \<open>rs\<close>: the
    stream of the values that \<^verbatim>\<open>np.random.uniform(0.95, 1.15, ...)\<close> returns after seeding,
    in the order in which they are drawn.
  \<^item> \<^verbatim>\<open>sort_values\<close> on two or more columns is a stable sort with missing values last.
\<close>

subsection \<open>Timestamps\<close>

record timestamp =
  ts_year :: int
  ts_month :: nat
  ts_day :: nat
  ts_nanos :: nat  \<comment> \<open>time of day\<close>

datatype error = ValueError

definition is_leap :: "int \<Rightarrow> bool" where
  "is_leap y = (y mod 4 = 0 \<and> (y mod 100 \<noteq> 0 \<or> y mod 400 = 0))"

definition days_in_month :: "int \<Rightarrow> nat \<Rightarrow> nat" where
  "days_in_month y m =
     (if m = 2 then (if is_leap y then 29 else 28)
      else if m = 4 \<or> m = 6 \<or> m = 9 \<or> m = 11 then 30 else 31)"

definition valid_date :: "int \<Rightarrow> nat \<Rightarrow> nat \<Rightarrow> bool" where
  "valid_date y m d = (1 \<le> m \<and> m \<le> 12 \<and> 1 \<le> d \<and> d \<le> days_in_month y m)"

text \<open>The timestamps pandas can hold: a date of the calendar and a time within the day.\<close>

definition wf_timestamp :: "timestamp \<Rightarrow> bool" where
  "wf_timestamp t =
     (valid_date (ts_year t) (ts_month t) (ts_day t) \<and> ts_nanos t < 86400000000000)"

text \<open>\<^verbatim>\<open>pd.Timestamp(year, month, day)\<close>: midnight of that day, ValueError when there is no
  such day.\<close>

definition Timestamp :: "int \<Rightarrow> nat \<Rightarrow> nat \<Rightarrow> error + timestamp" where
  "Timestamp y m d =
     (if valid_date y m d
      then Inr \<lparr>ts_year = y, ts_month = m, ts_day = d, ts_nanos = 0\<rparr>
      else Inl ValueError)"

text \<open>The nested function of \<^verbatim>\<open>main\<close>; the result \<open>None\<close> is Python's \<^verbatim>\<open>None\<close>.\<close>

definition shift_to_2025 :: "timestamp option \<Rightarrow> timestamp option" where
  "shift_to_2025 date_val =
     (case date_val of
        None \<Rightarrow> None
      | Some t \<Rightarrow>
          (let month = ts_month t; day = ts_day t in
           if month = 2 \<and> day = 29 then None
           else (case Timestamp 2025 month day of
                   Inr t' \<Rightarrow> Some t'
                 | Inl ValueError \<Rightarrow> None)))"

subsection \<open>Tables\<close>

datatype date_cell =
    DateNA  \<comment> \<open>empty cell\<close>
  | DateVal timestamp  \<comment> \<open>a cell that \<^verbatim>\<open>to_datetime\<close> converts to this timestamp\<close>
  | DateJunk  \<comment> \<open>a cell that is not empty and that \<^verbatim>\<open>to_datetime\<close> coerces to NaT\<close>

datatype float64 =
    Finite real  \<comment> \<open>a finite float64 with this value\<close>
  | PosInf
  | NegInf

datatype vol_cell =
    VolNA  \<comment> \<open>empty cell\<close>
  | VolVal float64  \<comment> \<open>a cell that \<^verbatim>\<open>to_numeric\<close> converts to this number\<close>
  | VolJunk  \<comment> \<open>a cell that is not empty and that \<^verbatim>\<open>to_numeric\<close> coerces to NaN\<close>

text \<open>A row over the four columns the script reads. The type of the date column and of the
  volume column changes when the column is converted.\<close>

record ('i, 'd, 't, 'v) row =
  Deposit_ID :: "'i option"
  Deposit_Date :: 't
  Depo :: "'d option"
  Volume_oz :: 'v

record ('i, 'd) dataframe =
  columns :: "string list"
  rows :: "('i, 'd, date_cell, vol_cell) row list"

record ('i, 'd) work_row = "('i, 'd, timestamp option, float64 option) row" +
  Year :: "int option"

record ('i, 'd) dated_row = "('i, 'd) work_row" +
  Date_2025 :: "timestamp option"

record ('i, 'd) forecast_row = "('i, 'd) dated_row" +
  Volume_2025 :: "float64 option"

record ('i, 'd) output_row =
  out_Deposit_ID :: "'i option"
  out_Date_2025 :: "timestamp option"
  out_Depo :: "'d option"
  out_Volume_2025 :: "float64 option"
  Date_2024_Original :: "timestamp option"
  Volume_2024_Original :: "float64 option"

record ('i, 'd) csv =
  csv_columns :: "string list"
  csv_rows :: "('i, 'd) output_row list"

datatype ('i, 'd) outcome =
    SchemaError "string list" "string list"
      \<comment> \<open>the early return: missing columns and available columns are printed, nothing is written\<close>
  | Written "('i, 'd) csv"

subsection \<open>Configuration\<close>

definition DATE_COL :: string where "DATE_COL = ''Deposit Date''"
definition DEPOT_COL :: string where "DEPOT_COL = ''Depo''"
definition VOLUME_COL :: string where "VOLUME_COL = ''Volume (oz)''"
definition DEPOSIT_ID_COL :: string where "DEPOSIT_ID_COL = ''Deposit ID''"

definition required_cols :: "string list" where
  "required_cols = [DATE_COL, DEPOT_COL, VOLUME_COL]"

subsection \<open>Step 2: cleaning\<close>

definition missing_cols :: "string list \<Rightarrow> string list" where
  "missing_cols df_columns = filter (\<lambda>col. col \<notin> set df_columns) required_cols"

text \<open>\<^verbatim>\<open>df[work_cols]\<close>: without the deposit-id column the field is empty in every row.\<close>

definition select_work_cols ::
  "bool \<Rightarrow> ('i, 'd, date_cell, vol_cell) row list \<Rightarrow> ('i, 'd, date_cell, vol_cell) row list" where
  "select_work_cols has_deposit_id rs =
     map (\<lambda>r. if has_deposit_id then r else r\<lparr>Deposit_ID := None\<rparr>) rs"

text \<open>\<^verbatim>\<open>work.dropna(subset=[DATE_COL, DEPOT_COL])\<close> on the raw cells.\<close>

definition dropna_date_depot ::
  "('i, 'd, date_cell, vol_cell) row list \<Rightarrow> ('i, 'd, date_cell, vol_cell) row list" where
  "dropna_date_depot rs = filter (\<lambda>r. Deposit_Date r \<noteq> DateNA \<and> Depo r \<noteq> None) rs"

fun to_datetime :: "date_cell \<Rightarrow> timestamp option" where
  "to_datetime DateNA = None"
| "to_datetime (DateVal t) = Some t"
| "to_datetime DateJunk = None"

definition to_datetime_col ::
  "('i, 'd, date_cell, vol_cell) row list \<Rightarrow> ('i, 'd, timestamp option, vol_cell) row list" where
  "to_datetime_col rs =
     map (\<lambda>r. \<lparr>Deposit_ID = Deposit_ID r, Deposit_Date = to_datetime (Deposit_Date r),
               Depo = Depo r, Volume_oz = Volume_oz r\<rparr>) rs"

definition dropna_date ::
  "('i, 'd, timestamp option, vol_cell) row list \<Rightarrow> ('i, 'd, timestamp option, vol_cell) row list" where
  "dropna_date rs = filter (\<lambda>r. Deposit_Date r \<noteq> None) rs"

fun to_numeric :: "vol_cell \<Rightarrow> float64 option" where
  "to_numeric VolNA = None"
| "to_numeric (VolVal x) = Some x"
| "to_numeric VolJunk = None"

definition fillna :: "float64 \<Rightarrow> float64 option \<Rightarrow> float64 option" where
  "fillna v x = (case x of None \<Rightarrow> Some v | Some y \<Rightarrow> Some y)"

definition to_numeric_col ::
  "('i, 'd, timestamp option, vol_cell) row list \<Rightarrow>
   ('i, 'd, timestamp option, float64 option) row list" where
  "to_numeric_col rs =
     map (\<lambda>r. \<lparr>Deposit_ID = Deposit_ID r, Deposit_Date = Deposit_Date r,
               Depo = Depo r, Volume_oz = fillna (Finite 0) (to_numeric (Volume_oz r))\<rparr>) rs"

text \<open>\<^verbatim>\<open>work['Year'] = work[DATE_COL].dt.year\<close>\<close>

definition add_year ::
  "('i, 'd, timestamp option, float64 option) row list \<Rightarrow> ('i, 'd) work_row list" where
  "add_year rs =
     map (\<lambda>r. \<lparr>Deposit_ID = Deposit_ID r, Deposit_Date = Deposit_Date r,
               Depo = Depo r, Volume_oz = Volume_oz r,
               Year = map_option ts_year (Deposit_Date r)\<rparr>) rs"

definition clean ::
  "bool \<Rightarrow> ('i, 'd, date_cell, vol_cell) row list \<Rightarrow> ('i, 'd) work_row list" where
  "clean has_deposit_id rs =
     add_year (to_numeric_col (dropna_date (to_datetime_col
       (dropna_date_depot (select_work_cols has_deposit_id rs)))))"

subsection \<open>Step 3: depots of 2023 that are missing in 2024\<close>

text \<open>\<^verbatim>\<open>Series.unique()\<close>: the distinct values in the order of their first appearance.\<close>

fun unique :: "'a list \<Rightarrow> 'a list" where
  "unique [] = []"
| "unique (x # xs) = x # unique (removeAll x xs)"

definition depots_of_year :: "int \<Rightarrow> ('i, 'd) work_row list \<Rightarrow> 'd option set" where
  "depots_of_year y work = set (unique (map Depo (filter (\<lambda>r. Year r = Some y) work)))"

definition missing_depots :: "('i, 'd) work_row list \<Rightarrow> 'd option set" where
  "missing_depots work = depots_of_year 2023 work - depots_of_year 2024 work"

subsection \<open>Steps 4 and 5: the rows of 2024, shifted and scaled\<close>

definition filter_2024 :: "('i, 'd) work_row list \<Rightarrow> ('i, 'd) work_row list" where
  "filter_2024 work = filter (\<lambda>r. Year r = Some 2024) work"

definition add_date_2025 :: "('i, 'd) work_row list \<Rightarrow> ('i, 'd) dated_row list" where
  "add_date_2025 rs =
     map (\<lambda>r. \<lparr>Deposit_ID = Deposit_ID r, Deposit_Date = Deposit_Date r,
               Depo = Depo r, Volume_oz = Volume_oz r, Year = Year r,
               Date_2025 = shift_to_2025 (Deposit_Date r)\<rparr>) rs"

definition dropna_date_2025 :: "('i, 'd) dated_row list \<Rightarrow> ('i, 'd) dated_row list" where
  "dropna_date_2025 rs = filter (\<lambda>r. Date_2025 r \<noteq> None) rs"

text \<open>\<^verbatim>\<open>np.random.uniform(0.95, 1.15, size=n)\<close>, the only call on the generator: the first
  \<open>n\<close> values of the stream.\<close>

definition uniform :: "(nat \<Rightarrow> float64) \<Rightarrow> nat \<Rightarrow> float64 list" where
  "uniform rs n = map rs [0..<n]"

text \<open>\<^verbatim>\<open>forecast[VOLUME_COL] * np.random.uniform(0.95, 1.15, size=len(forecast))\<close>: the
  product of a column and an array, element by element, in the order of the rows.\<close>

definition add_volume_2025 ::
  "(float64 \<Rightarrow> float64 \<Rightarrow> float64 option) \<Rightarrow> (nat \<Rightarrow> float64) \<Rightarrow>
   ('i, 'd) dated_row list \<Rightarrow> ('i, 'd) forecast_row list" where
  "add_volume_2025 mul rs forecast =
     map (\<lambda>(r, f). \<lparr>Deposit_ID = Deposit_ID r, Deposit_Date = Deposit_Date r,
                    Depo = Depo r, Volume_oz = Volume_oz r, Year = Year r,
                    Date_2025 = Date_2025 r,
                    Volume_2025 = (case Volume_oz r of None \<Rightarrow> None | Some v \<Rightarrow> mul v f)\<rparr>)
       (zip forecast (uniform rs (length forecast)))"

definition make_forecast ::
  "(float64 \<Rightarrow> float64 \<Rightarrow> float64 option) \<Rightarrow> (nat \<Rightarrow> float64) \<Rightarrow>
   ('i, 'd) work_row list \<Rightarrow> ('i, 'd) forecast_row list" where
  "make_forecast mul rs df_2024 =
     add_volume_2025 mul rs (dropna_date_2025 (add_date_2025 df_2024))"

subsection \<open>Steps 6 and 7: the written table\<close>

definition output_df :: "('i, 'd) forecast_row list \<Rightarrow> ('i, 'd) output_row list" where
  "output_df forecast =
     map (\<lambda>r. \<lparr>out_Deposit_ID = Deposit_ID r, out_Date_2025 = Date_2025 r,
               out_Depo = Depo r, out_Volume_2025 = Volume_2025 r,
               Date_2024_Original = Deposit_Date r,
               Volume_2024_Original = Volume_oz r\<rparr>) forecast"

definition output_columns :: "bool \<Rightarrow> string list" where
  "output_columns has_deposit_id =
     (if has_deposit_id then [DEPOSIT_ID_COL] else []) @
     [''Date_2025'', DEPOT_COL, ''Volume_2025'', ''Date_2024_Original'', ''Volume_2024_Original'']"

text \<open>Missing values sort after every value (\<^verbatim>\<open>na_position='last'\<close>).\<close>

definition na_last :: "'a option \<Rightarrow> bool \<times> 'a option" where
  "na_last x = (x = None, x)"

definition ts_key :: "timestamp \<Rightarrow> int \<times> nat \<times> nat \<times> nat" where
  "ts_key t = (ts_year t, ts_month t, ts_day t, ts_nanos t)"

definition sort_cols ::
  "bool \<Rightarrow> ('i::linorder, 'd::linorder) output_row \<Rightarrow>
   (bool \<times> (int \<times> nat \<times> nat \<times> nat) option) \<times> (bool \<times> 'd option) \<times> (bool \<times> 'i option)" where
  "sort_cols has_deposit_id r =
     (na_last (map_option ts_key (out_Date_2025 r)),
      na_last (out_Depo r),
      if has_deposit_id then na_last (out_Deposit_ID r) else (False, None))"

definition sort_values ::
  "bool \<Rightarrow> ('i::linorder, 'd::linorder) output_row list \<Rightarrow> ('i, 'd) output_row list" where
  "sort_values has_deposit_id out = sort_key (sort_cols has_deposit_id) out"

text \<open>\<^verbatim>\<open>main\<close> from the loaded table to the written file (steps 2 to 7). Step 8 prints a
  summary and changes neither the table nor the file.\<close>

definition main ::
  "(float64 \<Rightarrow> float64 \<Rightarrow> float64 option) \<Rightarrow> (nat \<Rightarrow> float64) \<Rightarrow>
   ('i::linorder, 'd::linorder) dataframe \<Rightarrow> ('i, 'd) outcome" where
  "main mul rs df =
     (if missing_cols (columns df) \<noteq> [] then SchemaError (missing_cols (columns df)) (columns df)
      else
        (let has_deposit_id = (DEPOSIT_ID_COL \<in> set (columns df));
             work = clean has_deposit_id (rows df);
             df_2024 = filter_2024 work;
             forecast = make_forecast mul rs df_2024
         in Written \<lparr>csv_columns = output_columns has_deposit_id,
                     csv_rows = sort_values has_deposit_id (output_df forecast)\<rparr>))"

subsection \<open>Vocabulary of the specification\<close>

text \<open>The input tables pandas can produce: every parsed date is a date of the calendar.\<close>

definition wf_dataframe :: "('i, 'd) dataframe \<Rightarrow> bool" where
  "wf_dataframe df =
     list_all (\<lambda>r. case Deposit_Date r of DateVal t \<Rightarrow> wf_timestamp t | _ \<Rightarrow> True) (rows df)"

definition is_feb29 :: "timestamp option \<Rightarrow> bool" where
  "is_feb29 x = (case x of None \<Rightarrow> False | Some t \<Rightarrow> ts_month t = 2 \<and> ts_day t = 29)"

definition same_day_2025 :: "timestamp \<Rightarrow> timestamp" where
  "same_day_2025 t = \<lparr>ts_year = 2025, ts_month = ts_month t, ts_day = ts_day t, ts_nanos = 0\<rparr>"

text \<open>The base-year table \<^verbatim>\<open>df_2024\<close> of a run, and the number of factors the run draws.\<close>

definition base_year_rows :: "('i, 'd) dataframe \<Rightarrow> ('i, 'd) work_row list" where
  "base_year_rows df = filter_2024 (clean (DEPOSIT_ID_COL \<in> set (columns df)) (rows df))"

definition draws :: "('i, 'd) dataframe \<Rightarrow> nat" where
  "draws df = length (dropna_date_2025 (add_date_2025 (base_year_rows df)))"

text \<open>The rows the cleaner drops, in the words of the specification: the date or the depot is
  missing, or the date cannot be parsed.\<close>

definition dropped_by_cleaning :: "('i, 'd, date_cell, vol_cell) row \<Rightarrow> bool" where
  "dropped_by_cleaning r =
     (Deposit_Date r = DateNA \<or> Depo r = None \<or> Deposit_Date r = DateJunk)"

definition coerced_volume :: "vol_cell \<Rightarrow> float64" where
  "coerced_volume c = (case c of VolVal x \<Rightarrow> x | _ \<Rightarrow> Finite 0)"

text \<open>Ascending order of two output rows on (forecast date, depot, deposit id when the column
  is there); a missing deposit id comes after every deposit id.\<close>

definition id_le :: "('i::linorder) option \<Rightarrow> 'i option \<Rightarrow> bool" where
  "id_le x y =
     (case y of None \<Rightarrow> True | Some j \<Rightarrow> (case x of None \<Rightarrow> False | Some i \<Rightarrow> i \<le> j))"

definition ascending ::
  "bool \<Rightarrow> ('i::linorder, 'd::linorder) output_row \<Rightarrow> ('i, 'd) output_row \<Rightarrow> bool" where
  "ascending has_deposit_id a b =
     (case (out_Date_2025 a, out_Date_2025 b, out_Depo a, out_Depo b) of
        (Some ta, Some tb, Some da, Some db) \<Rightarrow>
          ts_key ta < ts_key tb \<or>
          (ts_key ta = ts_key tb \<and>
            (da < db \<or>
             (da = db \<and> (\<not> has_deposit_id \<or> id_le (out_Deposit_ID a) (out_Deposit_ID b)))))
      | _ \<Rightarrow> False)"

text \<open>Two output rows that compare equal on all sort keys.\<close>

definition same_keys ::
  "bool \<Rightarrow> ('i, 'd) output_row \<Rightarrow> ('i, 'd) output_row \<Rightarrow> bool" where
  "same_keys has_deposit_id a b =
     (out_Date_2025 a = out_Date_2025 b \<and> out_Depo a = out_Depo b
      \<and> (\<not> has_deposit_id \<or> out_Deposit_ID a = out_Deposit_ID b))"

subsection \<open>Example tables\<close>

definition d2024 :: "nat \<Rightarrow> nat \<Rightarrow> timestamp" where
  "d2024 m d = \<lparr>ts_year = 2024, ts_month = m, ts_day = d, ts_nanos = 0\<rparr>"

text \<open>The example run multiplies exactly, with the infinities as in IEEE 754. Its factors
  and volumes are float64 values whose exact products are float64 values too, so that the
  float64 multiplication gives these products.\<close>

definition example_rs :: "nat \<Rightarrow> float64" where
  "example_rs i = (if even i then Finite 1 else Finite (9 / 8))"


fun signed_inf :: "bool \<Rightarrow> float64" where
  "signed_inf positive = (if positive then PosInf else NegInf)"

fun example_mul :: "float64 \<Rightarrow> float64 \<Rightarrow> float64 option" where
  "example_mul (Finite a) (Finite b) = Some (Finite (a * b))"
| "example_mul (Finite a) PosInf = (if a = 0 then None else Some (signed_inf (0 < a)))"
| "example_mul (Finite a) NegInf = (if a = 0 then None else Some (signed_inf (a < 0)))"
| "example_mul PosInf (Finite b) = (if b = 0 then None else Some (signed_inf (0 < b)))"
| "example_mul NegInf (Finite b) = (if b = 0 then None else Some (signed_inf (b < 0)))"
| "example_mul PosInf PosInf = Some PosInf"
| "example_mul PosInf NegInf = Some NegInf"
| "example_mul NegInf PosInf = Some NegInf"
| "example_mul NegInf NegInf = Some PosInf"

definition example_df :: "(nat, nat) dataframe" where
  "example_df =
     \<lparr>columns = [''Deposit ID'', ''Deposit Date'', ''Depo'', ''Volume (oz)''],
      rows =
       [\<lparr>Deposit_ID = Some 1, Deposit_Date = DateVal (d2024 2 29), Depo = Some 10,
          Volume_oz = VolVal (Finite 100)\<rparr>,
        \<lparr>Deposit_ID = Some 2, Deposit_Date = DateVal (d2024 3 1), Depo = Some 20,
          Volume_oz = VolVal (Finite 200)\<rparr>,
        \<lparr>Deposit_ID = Some 3,
          Deposit_Date = DateVal \<lparr>ts_year = 2023, ts_month = 5, ts_day = 5, ts_nanos = 0\<rparr>,
          Depo = Some 30, Volume_oz = VolVal (Finite 50)\<rparr>,
        \<lparr>Deposit_ID = Some 4, Deposit_Date = DateNA, Depo = Some 10, Volume_oz = VolVal (Finite 10)\<rparr>,
        \<lparr>Deposit_ID = Some 5, Deposit_Date = DateJunk, Depo = Some 20, Volume_oz = VolVal (Finite 10)\<rparr>,
        \<lparr>Deposit_ID = Some 6, Deposit_Date = DateVal (d2024 1 15), Depo = None,
          Volume_oz = VolVal (Finite 10)\<rparr>,
        \<lparr>Deposit_ID = Some 7, Deposit_Date = DateVal (d2024 1 15), Depo = Some 20,
          Volume_oz = VolJunk\<rparr>,
        \<lparr>Deposit_ID = None, Deposit_Date = DateVal (d2024 1 15), Depo = Some 10,
          Volume_oz = VolVal (Finite (- 5))\<rparr>]\<rparr>"

definition example_work :: "(nat, nat) work_row list" where
  "example_work =
     [\<lparr>Deposit_ID = Some 1, Deposit_Date = Some (d2024 2 29), Depo = Some 10,
        Volume_oz = Some (Finite 100), Year = Some 2024\<rparr>,
      \<lparr>Deposit_ID = Some 2, Deposit_Date = Some (d2024 3 1), Depo = Some 20,
        Volume_oz = Some (Finite 200), Year = Some 2024\<rparr>,
      \<lparr>Deposit_ID = Some 3,
        Deposit_Date = Some \<lparr>ts_year = 2023, ts_month = 5, ts_day = 5, ts_nanos = 0\<rparr>,
        Depo = Some 30, Volume_oz = Some (Finite 50), Year = Some 2023\<rparr>,
      \<lparr>Deposit_ID = Some 7, Deposit_Date = Some (d2024 1 15), Depo = Some 20,
        Volume_oz = Some (Finite 0), Year = Some 2024\<rparr>,
      \<lparr>Deposit_ID = None, Deposit_Date = Some (d2024 1 15), Depo = Some 10,
        Volume_oz = Some (Finite (- 5)), Year = Some 2024\<rparr>]"

definition example_row_a :: "(nat, nat) output_row" where
  "example_row_a =
     \<lparr>out_Deposit_ID = None,
      out_Date_2025 = Some \<lparr>ts_year = 2025, ts_month = 1, ts_day = 15, ts_nanos = 0\<rparr>,
      out_Depo = Some 10, out_Volume_2025 = Some (Finite (- 5)),
      Date_2024_Original = Some (d2024 1 15), Volume_2024_Original = Some (Finite (- 5))\<rparr>"

definition example_row_b :: "(nat, nat) output_row" where
  "example_row_b =
     \<lparr>out_Deposit_ID = Some 7,
      out_Date_2025 = Some \<lparr>ts_year = 2025, ts_month = 1, ts_day = 15, ts_nanos = 0\<rparr>,
      out_Depo = Some 20, out_Volume_2025 = Some (Finite 0),
      Date_2024_Original = Some (d2024 1 15), Volume_2024_Original = Some (Finite 0)\<rparr>"

definition example_row_c :: "(nat, nat) output_row" where
  "example_row_c =
     \<lparr>out_Deposit_ID = Some 2,
      out_Date_2025 = Some \<lparr>ts_year = 2025, ts_month = 3, ts_day = 1, ts_nanos = 0\<rparr>,
      out_Depo = Some 20, out_Volume_2025 = Some (Finite 200),
      Date_2024_Original = Some (d2024 3 1), Volume_2024_Original = Some (Finite 200)\<rparr>"

definition example_out :: "(nat, nat) csv" where
  "example_out =
     \<lparr>csv_columns = [''Deposit ID'', ''Date_2025'', ''Depo'', ''Volume_2025'',
                     ''Date_2024_Original'', ''Volume_2024_Original''],
      csv_rows = [example_row_a, example_row_b, example_row_c]\<rparr>"

definition example_bad_df :: "(nat, nat) dataframe" where
  "example_bad_df = \<lparr>columns = [''Depo'', ''Deposit ID''], rows = []\<rparr>"

text \<open>The cleaned row that a surviving raw row becomes, in the words of the specification: the
  date parsed, the volume coerced to a number (zero when it is missing or not numeric).\<close>

definition cleaned_row :: "bool \<Rightarrow> ('i, 'd, date_cell, vol_cell) row \<Rightarrow> ('i, 'd) work_row" where
  "cleaned_row has_deposit_id r =
     \<lparr>Deposit_ID = (if has_deposit_id then Deposit_ID r else None),
      Deposit_Date = to_datetime (Deposit_Date r),
      Depo = Depo r,
      Volume_oz = Some (coerced_volume (Volume_oz r)),
      Year = map_option ts_year (to_datetime (Deposit_Date r))\<rparr>"

definition example_negative_row :: "(nat, nat, date_cell, vol_cell) row" where
  "example_negative_row =
     \<lparr>Deposit_ID = None, Deposit_Date = DateVal (d2024 1 15), Depo = Some 10,
      Volume_oz = VolVal (Finite (- 5))\<rparr>"

text \<open>A row whose volume cell reads \<^verbatim>\<open>inf\<close>, which \<^verbatim>\<open>to_numeric\<close> converts to the float64
  infinity.\<close>

definition example_infinite_row :: "(nat, nat, date_cell, vol_cell) row" where
  "example_infinite_row =
     \<lparr>Deposit_ID = Some 8, Deposit_Date = DateVal (d2024 1 15), Depo = Some 10,
      Volume_oz = VolVal PosInf\<rparr>"

text \<open>The finite and non-negative float64 values.\<close>

fun finite_nonneg :: "float64 \<Rightarrow> bool" where
  "finite_nonneg (Finite x) = (0 \<le> x)"
| "finite_nonneg PosInf = False"
| "finite_nonneg NegInf = False"

section \<open>Properties\<close>

subsection \<open>Auxiliary facts\<close>

lemma valid_date_2025:
  assumes "valid_date y m d" and "\<not> (m = 2 \<and> d = 29)"
  shows "valid_date 2025 m d"
  using assms by (auto simp: valid_date_def days_in_month_def is_leap_def split: if_splits)

lemma shift_to_2025_wf:
  assumes "wf_timestamp t"
  shows "shift_to_2025 (Some t) =
    (if ts_month t = 2 \<and> ts_day t = 29 then None
     else Some \<lparr>ts_year = 2025, ts_month = ts_month t, ts_day = ts_day t, ts_nanos = 0\<rparr>)"
proof (cases "ts_month t = 2 \<and> ts_day t = 29")
  case True
  then show ?thesis by (simp add: shift_to_2025_def)
next
  case False
  from assms have "valid_date (ts_year t) (ts_month t) (ts_day t)"
    by (simp add: wf_timestamp_def)
  with False have "valid_date 2025 (ts_month t) (ts_day t)"
    by (rule_tac valid_date_2025) auto
  with False show ?thesis
    by (simp add: shift_to_2025_def Timestamp_def Let_def)
qed

lemma shift_to_2025_Some:
  assumes "shift_to_2025 x = Some t'"
  shows "\<exists>t. x = Some t \<and> t' = \<lparr>ts_year = 2025, ts_month = ts_month t, ts_day = ts_day t, ts_nanos = 0\<rparr>
           \<and> \<not> (ts_month t = 2 \<and> ts_day t = 29)"
  using assms
  by (auto simp: shift_to_2025_def Timestamp_def Let_def split: option.splits if_splits sum.splits)

lemma main_Written:
  assumes "main mul rs df = Written out"
  shows "missing_cols (columns df) = []"
    and "out = \<lparr>csv_columns = output_columns (DEPOSIT_ID_COL \<in> set (columns df)),
                csv_rows = sort_values (DEPOSIT_ID_COL \<in> set (columns df))
                  (output_df (make_forecast mul rs (filter_2024
                     (clean (DEPOSIT_ID_COL \<in> set (columns df)) (rows df)))))\<rparr>"
  using assms by (auto simp: main_def Let_def split: if_splits)

lemma clean_row:
  assumes "r \<in> set (clean h rs)"
  shows "\<exists>t d v. Deposit_Date r = Some t \<and> Depo r = Some d \<and> Volume_oz r = Some v
           \<and> Year r = Some (ts_year t)"
  using assms
  by (auto simp: clean_def add_year_def to_numeric_col_def dropna_date_def to_datetime_col_def
      dropna_date_depot_def select_work_cols_def fillna_def split: option.splits)

lemma make_forecast_row:
  assumes "r \<in> set (make_forecast mul rs xs)"
  shows "\<exists>w f. w \<in> set xs \<and> f \<in> set (uniform rs (length (dropna_date_2025 (add_date_2025 xs))))
           \<and> Deposit_ID r = Deposit_ID w \<and> Deposit_Date r = Deposit_Date w \<and> Depo r = Depo w
           \<and> Volume_oz r = Volume_oz w \<and> Year r = Year w
           \<and> Date_2025 r = shift_to_2025 (Deposit_Date w) \<and> Date_2025 r \<noteq> None
           \<and> Volume_2025 r = (case Volume_oz w of None \<Rightarrow> None | Some v \<Rightarrow> mul v f)"
proof -
  let ?ys = "dropna_date_2025 (add_date_2025 xs)"
  from assms obtain y f where yf: "(y, f) \<in> set (zip ?ys (uniform rs (length ?ys)))"
    and r: "r = \<lparr>Deposit_ID = Deposit_ID y, Deposit_Date = Deposit_Date y,
                    Depo = Depo y, Volume_oz = Volume_oz y, Year = Year y,
                    Date_2025 = Date_2025 y,
                    Volume_2025 = (case Volume_oz y of None \<Rightarrow> None | Some v \<Rightarrow> mul v f)\<rparr>"
    by (auto simp: make_forecast_def add_volume_2025_def)
  from yf have y: "y \<in> set ?ys" and f: "f \<in> set (uniform rs (length ?ys))"
    by (auto dest: set_zip_leftD set_zip_rightD)
  from y obtain w where w: "w \<in> set xs" and yw: "y = \<lparr>Deposit_ID = Deposit_ID w, Deposit_Date = Deposit_Date w,
               Depo = Depo w, Volume_oz = Volume_oz w, Year = Year w,
               Date_2025 = shift_to_2025 (Deposit_Date w)\<rparr>" and nn: "Date_2025 y \<noteq> None"
    by (auto simp: dropna_date_2025_def add_date_2025_def)
  show ?thesis using w f r yw nn by (intro exI[of _ w] exI[of _ f]) simp
qed

lemma output_row:
  assumes "main mul rs df = Written out" and "r \<in> set (csv_rows out)"
  shows "\<exists>w f. w \<in> set (clean (DEPOSIT_ID_COL \<in> set (columns df)) (rows df)) \<and> Year w = Some 2024
           \<and> f \<in> set (uniform rs
                (length (dropna_date_2025 (add_date_2025 (filter_2024
                   (clean (DEPOSIT_ID_COL \<in> set (columns df)) (rows df)))))))
           \<and> out_Deposit_ID r = Deposit_ID w \<and> Date_2024_Original r = Deposit_Date w
           \<and> out_Depo r = Depo w \<and> Volume_2024_Original r = Volume_oz w
           \<and> out_Date_2025 r = shift_to_2025 (Deposit_Date w) \<and> out_Date_2025 r \<noteq> None
           \<and> out_Volume_2025 r = (case Volume_oz w of None \<Rightarrow> None | Some v \<Rightarrow> mul v f)"
proof -
  let ?h = "DEPOSIT_ID_COL \<in> set (columns df)"
  let ?work = "clean ?h (rows df)"
  from main_Written(2)[OF assms(1)] assms(2)
  have "r \<in> set (output_df (make_forecast mul rs (filter_2024 ?work)))"
    by (simp add: sort_values_def)
  then obtain x where x: "x \<in> set (make_forecast mul rs (filter_2024 ?work))"
    and r: "r = \<lparr>out_Deposit_ID = Deposit_ID x, out_Date_2025 = Date_2025 x,
               out_Depo = Depo x, out_Volume_2025 = Volume_2025 x,
               Date_2024_Original = Deposit_Date x,
               Volume_2024_Original = Volume_oz x\<rparr>"
    by (auto simp: output_df_def)
  from make_forecast_row[OF x] obtain w f where
    w: "w \<in> set (filter_2024 ?work)" and
    f: "f \<in> set (uniform rs (length (dropna_date_2025 (add_date_2025 (filter_2024 ?work)))))" and
    eqs: "Deposit_ID x = Deposit_ID w" "Deposit_Date x = Deposit_Date w" "Depo x = Depo w"
       "Volume_oz x = Volume_oz w" "Date_2025 x = shift_to_2025 (Deposit_Date w)" "Date_2025 x \<noteq> None"
       "Volume_2025 x = (case Volume_oz w of None \<Rightarrow> None | Some v \<Rightarrow> mul v f)"
    by blast
  from w have "w \<in> set ?work" "Year w = Some 2024" by (auto simp: filter_2024_def)
  then show ?thesis using f eqs r by (intro exI[of _ w] exI[of _ f]) simp
qed

subsection \<open>The example run\<close>

lemma example_clean: "clean True (rows example_df) = example_work"
  by (simp add: example_df_def example_work_def clean_def select_work_cols_def
      dropna_date_depot_def to_datetime_col_def dropna_date_def to_numeric_col_def
      add_year_def fillna_def d2024_def)

lemma example_unsorted:
  "output_df (make_forecast example_mul example_rs (filter_2024 example_work)) =
     [example_row_c, example_row_b, example_row_a]"
  by (simp add: example_work_def example_row_a_def example_row_b_def example_row_c_def
      d2024_def filter_2024_def make_forecast_def add_date_2025_def dropna_date_2025_def
      shift_to_2025_def Timestamp_def valid_date_def days_in_month_def is_leap_def
      add_volume_2025_def uniform_def example_rs_def output_df_def upt_conv_Cons)

lemma example_sorted:
  "sort_values True [example_row_c, example_row_b, example_row_a] = csv_rows example_out"
  by (simp add: example_out_def example_row_a_def example_row_b_def example_row_c_def
      d2024_def sort_values_def sort_cols_def na_last_def ts_key_def)

lemma example_has_id: "DEPOSIT_ID_COL \<in> set (columns example_df)"
  by (simp add: example_df_def DEPOSIT_ID_COL_def)

lemma example_main: "main example_mul example_rs example_df = Written example_out"
proof -
  have m: "missing_cols (columns example_df) = []"
    by (simp add: missing_cols_def required_cols_def example_df_def DATE_COL_def
        DEPOT_COL_def VOLUME_COL_def)
  have c: "output_columns True = csv_columns example_out"
    by (simp add: output_columns_def example_out_def DEPOSIT_ID_COL_def DEPOT_COL_def)
  have e: "example_out = \<lparr>csv_columns = csv_columns example_out, csv_rows = csv_rows example_out\<rparr>"
    by simp
  show ?thesis
    unfolding main_def Let_def
    by (subst e) (simp only: m example_has_id c example_clean example_unsorted example_sorted
        simp_thms if_True if_False)
qed

lemma example_wf: "wf_dataframe example_df"
  by (simp add: wf_dataframe_def example_df_def d2024_def wf_timestamp_def valid_date_def
      days_in_month_def is_leap_def)

subsection \<open>Auxiliary facts about the schema check\<close>

lemma missing_cols_empty: "missing_cols cs = [] \<longleftrightarrow> set required_cols \<subseteq> set cs"
  by (auto simp: missing_cols_def filter_empty_conv)

section \<open>The claims\<close>

text \<open>
  Claim C6. When the loaded table lacks a required column (date, depot or volume), \<open>main\<close>
  takes the early return: it reports the missing columns, in the order of the required list,
  and the available columns, and no table is written. A table is written exactly when all
  three required columns are present.
\<close>

theorem C6_missing_columns_halt:
  "(\<not> set required_cols \<subseteq> set (columns df) \<longrightarrow>
      main mul rs df =
        SchemaError (filter (\<lambda>col. col \<notin> set (columns df)) required_cols) (columns df)
      \<and> filter (\<lambda>col. col \<notin> set (columns df)) required_cols \<noteq> [])
   \<and> ((\<exists>out. main mul rs df = Written out) \<longleftrightarrow> set required_cols \<subseteq> set (columns df))"
proof (cases "missing_cols (columns df) = []")
  case True
  then have "set required_cols \<subseteq> set (columns df)" by (simp add: missing_cols_empty)
  moreover from True have "\<exists>out. main mul rs df = Written out" by (simp add: main_def Let_def)
  ultimately show ?thesis by simp
next
  case False
  then have n: "\<not> set required_cols \<subseteq> set (columns df)" by (simp add: missing_cols_empty)
  from False have m: "main mul rs df = SchemaError (missing_cols (columns df)) (columns df)"
    by (simp add: main_def)
  from m have "\<not> (\<exists>out. main mul rs df = Written out)" by simp
  with n m False show ?thesis by (simp add: missing_cols_def)
qed

theorem C6_missing_columns_halt_witness:
  "\<not> set required_cols \<subseteq> set (columns example_bad_df)
   \<and> main example_mul example_rs example_bad_df =
       SchemaError [''Deposit Date'', ''Volume (oz)''] [''Depo'', ''Deposit ID'']
   \<and> set required_cols \<subseteq> set (columns example_df)
   \<and> (\<exists>out. main example_mul example_rs example_df = Written out)"
proof -
  have a: "\<not> set required_cols \<subseteq> set (columns example_bad_df)"
    by (simp add: required_cols_def example_bad_df_def DATE_COL_def DEPOT_COL_def VOLUME_COL_def)
  have b: "filter (\<lambda>col. col \<notin> set (columns example_bad_df)) required_cols
             = [''Deposit Date'', ''Volume (oz)'']"
    by (simp add: required_cols_def example_bad_df_def DATE_COL_def DEPOT_COL_def VOLUME_COL_def)
  have c: "columns example_bad_df = [''Depo'', ''Deposit ID'']"
    by (simp add: example_bad_df_def)
  have d: "set required_cols \<subseteq> set (columns example_df)"
    by (simp add: required_cols_def example_df_def DATE_COL_def DEPOT_COL_def VOLUME_COL_def)
  from C6_missing_columns_halt [of example_bad_df example_mul example_rs] a b c
  have e: "main example_mul example_rs example_bad_df =
       SchemaError [''Deposit Date'', ''Volume (oz)''] [''Depo'', ''Deposit ID'']"
    by simp
  from C6_missing_columns_halt [of example_df example_mul example_rs] d
  have f: "\<exists>out. main example_mul example_rs example_df = Written out" by simp
  from a d e f show ?thesis by simp
qed

subsection \<open>Auxiliary facts about cleaning and the date shift\<close>

lemma clean_eq:
  "clean h rs = map (cleaned_row h) (filter (\<lambda>r. \<not> dropped_by_cleaning r) rs)"
proof (induction rs)
  case Nil
  show ?case
    by (simp add: clean_def add_year_def to_numeric_col_def dropna_date_def to_datetime_col_def
        dropna_date_depot_def select_work_cols_def)
next
  case (Cons r rs)
  have step: "clean h (r # rs) =
      (if dropped_by_cleaning r then clean h rs else cleaned_row h r # clean h rs)"
    by (cases "Deposit_Date r"; cases "Volume_oz r"; cases "Depo r")
       (simp_all add: clean_def add_year_def to_numeric_col_def dropna_date_def
        to_datetime_col_def dropna_date_depot_def select_work_cols_def
        dropped_by_cleaning_def cleaned_row_def coerced_volume_def fillna_def)
  show ?case by (simp add: step Cons.IH)
qed

lemma clean_wf:
  assumes "wf_dataframe df" and "w \<in> set (clean h (rows df))"
  shows "\<exists>t. Deposit_Date w = Some t \<and> wf_timestamp t"
proof -
  from assms(2) obtain r where r: "r \<in> set (rows df)" "\<not> dropped_by_cleaning r"
    and w: "w = cleaned_row h r"
    by (auto simp: clean_eq)
  from r(2) obtain t where t: "Deposit_Date r = DateVal t"
    by (cases "Deposit_Date r") (auto simp: dropped_by_cleaning_def)
  from assms(1) r(1) t have "wf_timestamp t"
    by (auto simp: wf_dataframe_def list_all_iff split: date_cell.splits)
  with t w show ?thesis by (simp add: cleaned_row_def)
qed

lemma shift_not_None:
  assumes "wf_timestamp t"
  shows "shift_to_2025 (Some t) \<noteq> None \<longleftrightarrow> \<not> is_feb29 (Some t)"
  using shift_to_2025_wf [OF assms] by (simp add: is_feb29_def)

lemma dropna_add_date_2025:
  assumes "\<forall>w \<in> set xs. \<exists>t. Deposit_Date w = Some t \<and> wf_timestamp t"
  shows "dropna_date_2025 (add_date_2025 xs) =
           add_date_2025 (filter (\<lambda>w. \<not> is_feb29 (Deposit_Date w)) xs)"
  using assms
proof (induction xs)
  case Nil
  show ?case by (simp add: dropna_date_2025_def add_date_2025_def)
next
  case (Cons x xs)
  from Cons.prems obtain t where t: "Deposit_Date x = Some t" "wf_timestamp t" by auto
  from Cons have IH: "dropna_date_2025 (add_date_2025 xs) =
           add_date_2025 (filter (\<lambda>w. \<not> is_feb29 (Deposit_Date w)) xs)" by simp
  from shift_not_None [OF t(2)] t(1)
  have "shift_to_2025 (Deposit_Date x) \<noteq> None \<longleftrightarrow> \<not> is_feb29 (Deposit_Date x)" by simp
  with IH show ?case
    by (simp add: dropna_date_2025_def add_date_2025_def)
qed

lemma length_uniform: "length (uniform rs n) = n"
  by (simp add: uniform_def)

lemma length_make_forecast:
  "length (make_forecast mul rs xs) = length (dropna_date_2025 (add_date_2025 xs))"
  by (simp add: make_forecast_def add_volume_2025_def length_uniform)

lemma length_csv_rows:
  assumes "main mul rs df = Written out"
  shows "length (csv_rows out) = draws df"
  using main_Written(2) [OF assms]
  by (simp add: sort_values_def output_df_def length_make_forecast draws_def base_year_rows_def)

lemma base_year_rows_wf:
  assumes "wf_dataframe df" and "w \<in> set (base_year_rows df)"
  shows "\<exists>t. Deposit_Date w = Some t \<and> wf_timestamp t \<and> ts_year t = 2024"
proof -
  from assms(2) have w: "w \<in> set (clean (DEPOSIT_ID_COL \<in> set (columns df)) (rows df))"
    and y: "Year w = Some 2024"
    by (auto simp: base_year_rows_def filter_2024_def)
  from clean_wf [OF assms(1) w] obtain t where t: "Deposit_Date w = Some t" "wf_timestamp t"
    by blast
  from clean_row [OF w] t(1) y have "ts_year t = 2024" by auto
  with t show ?thesis by blast
qed

text \<open>
  Claim C7. The cleaned table is, row for row and in order, the raw table without the rows
  whose date is missing, whose depot is missing or whose date cannot be parsed; every other
  row survives, with its volume coerced to zero when it is missing or not numeric and kept
  when it is numeric.
\<close>

theorem C7_cleaner_drops_exactly:
  "clean h rs = map (cleaned_row h) (filter (\<lambda>r. \<not> dropped_by_cleaning r) rs)
   \<and> length (clean h rs) + length (filter dropped_by_cleaning rs) = length rs
   \<and> (\<forall>r \<in> set rs. \<not> dropped_by_cleaning r \<longrightarrow>
        cleaned_row h r \<in> set (clean h rs)
        \<and> Volume_oz (cleaned_row h r) =
            (case Volume_oz r of VolVal x \<Rightarrow> Some x | VolNA \<Rightarrow> Some (Finite 0)
               | VolJunk \<Rightarrow> Some (Finite 0)))"
proof -
  have a: "clean h rs = map (cleaned_row h) (filter (\<lambda>r. \<not> dropped_by_cleaning r) rs)"
    by (rule clean_eq)
  have b: "length (clean h rs) + length (filter dropped_by_cleaning rs) = length rs"
    using sum_length_filter_compl [of dropped_by_cleaning rs] by (simp add: a)
  have c: "\<forall>r \<in> set rs. \<not> dropped_by_cleaning r \<longrightarrow>
        cleaned_row h r \<in> set (clean h rs)
        \<and> Volume_oz (cleaned_row h r) =
            (case Volume_oz r of VolVal x \<Rightarrow> Some x | VolNA \<Rightarrow> Some (Finite 0)
               | VolJunk \<Rightarrow> Some (Finite 0))"
    by (auto simp: a cleaned_row_def coerced_volume_def split: vol_cell.splits)
  from a b c show ?thesis by blast
qed

theorem C7_cleaner_drops_exactly_witness:
  "clean True (rows example_df) = example_work
   \<and> length (filter dropped_by_cleaning (rows example_df)) = 3
   \<and> length (rows example_df) = 8
   \<and> example_negative_row \<in> set (rows example_df)
   \<and> \<not> dropped_by_cleaning example_negative_row
   \<and> cleaned_row True example_negative_row \<in> set example_work
   \<and> Volume_oz (cleaned_row True example_negative_row) = Some (Finite (- 5))"
proof -
  have d: "length (filter dropped_by_cleaning (rows example_df)) = 3"
    by (simp add: example_df_def dropped_by_cleaning_def)
  have l: "length (rows example_df) = 8" by (simp add: example_df_def)
  have m: "example_negative_row \<in> set (rows example_df)"
    by (simp add: example_df_def example_negative_row_def)
  have n: "\<not> dropped_by_cleaning example_negative_row"
    by (simp add: example_negative_row_def dropped_by_cleaning_def)
  have v: "Volume_oz example_negative_row = VolVal (Finite (- 5))"
    by (simp add: example_negative_row_def)
  from C7_cleaner_drops_exactly [of True "rows example_df"] m n v
  have "cleaned_row True example_negative_row \<in> set (clean True (rows example_df))
        \<and> Volume_oz (cleaned_row True example_negative_row) = Some (Finite (- 5))"
    by (metis vol_cell.simps(9))
  with d l m n show ?thesis by (simp add: example_clean)
qed

text \<open>
  Claim C9, as amended. Every row of the cleaned table has a depot, a parsed date and a volume
  that is never a missing value: the value of the raw cell when \<^verbatim>\<open>to_numeric\<close> converts
  that cell to a number, zero otherwise. The cleaner checks neither the sign nor the
  finiteness of the value it keeps.
\<close>

theorem C9_cleaned_rows_not_null:
  assumes "w \<in> set (clean h rs)"
  shows "\<exists>t d v. Deposit_Date w = Some t \<and> Depo w = Some d \<and> Volume_oz w = Some v
           \<and> Year w = Some (ts_year t)
           \<and> (\<exists>r \<in> set rs. Deposit_Date r = DateVal t \<and> Depo r = Some d
                 \<and> v = coerced_volume (Volume_oz r))"
proof -
  from assms obtain r where r: "r \<in> set rs" "\<not> dropped_by_cleaning r"
    and w: "w = cleaned_row h r"
    by (auto simp: clean_eq)
  from r(2) obtain t d where td: "Deposit_Date r = DateVal t" "Depo r = Some d"
    by (cases "Deposit_Date r"; cases "Depo r") (auto simp: dropped_by_cleaning_def)
  show ?thesis
    using r(1) td w
    by (intro exI[of _ t] exI[of _ d] exI[of _ "coerced_volume (Volume_oz r)"])
       (auto simp: cleaned_row_def)
qed

theorem C9_cleaned_rows_not_null_witness:
  "cleaned_row False example_negative_row \<in> set (clean False [example_negative_row])
   \<and> (\<exists>t d v. Deposit_Date (cleaned_row False example_negative_row) = Some t
        \<and> Depo (cleaned_row False example_negative_row) = Some d
        \<and> Volume_oz (cleaned_row False example_negative_row) = Some v)"
proof -
  have m: "cleaned_row False example_negative_row \<in> set (clean False [example_negative_row])"
    by (simp add: clean_eq dropped_by_cleaning_def example_negative_row_def)
  from C9_cleaned_rows_not_null [OF m] m show ?thesis by blast
qed

text \<open>
  Claim C9 as stated fails, in both parts of "finite, non-negative": a negative number in the
  raw volume cell stays negative, and an infinite one stays infinite. Both rows are in the
  cleaned table, with a volume that is not a finite, non-negative number.
\<close>

theorem C9_volume_counterexample:
  "map Volume_oz (clean False [example_negative_row, example_infinite_row])
     = [Some (Finite (- 5)), Some PosInf]
   \<and> \<not> finite_nonneg (Finite (- 5)) \<and> \<not> finite_nonneg PosInf"
  by (simp add: clean_eq dropped_by_cleaning_def example_negative_row_def
      example_infinite_row_def cleaned_row_def coerced_volume_def)

text \<open>
  Claim C1. For a table whose parsed dates are dates of the calendar: every base-year row has
  a date in 2024, and \<open>shift_to_2025\<close> maps it to midnight of the same month and day in 2025,
  except a date of February 29, which it maps to nothing. Every row of the written table
  carries a base-year date that is not February 29 and, as forecast date, the same month and
  day in 2025; so no forecast date is a February 29.
\<close>

theorem C1_same_day_in_2025:
  assumes "wf_dataframe df" and "main mul rs df = Written out"
  shows "(\<forall>w \<in> set (base_year_rows df). \<exists>t. Deposit_Date w = Some t \<and> ts_year t = 2024
            \<and> shift_to_2025 (Deposit_Date w) =
                (if ts_month t = 2 \<and> ts_day t = 29 then None else Some (same_day_2025 t)))
       \<and> (\<forall>r \<in> set (csv_rows out). \<exists>t. Date_2024_Original r = Some t \<and> ts_year t = 2024
            \<and> \<not> (ts_month t = 2 \<and> ts_day t = 29)
            \<and> out_Date_2025 r = Some (same_day_2025 t)
            \<and> ts_year (same_day_2025 t) = 2025
            \<and> ts_month (same_day_2025 t) = ts_month t
            \<and> ts_day (same_day_2025 t) = ts_day t)"
proof (intro conjI ballI)
  fix w assume "w \<in> set (base_year_rows df)"
  from base_year_rows_wf [OF assms(1) this] obtain t where
    t: "Deposit_Date w = Some t" "wf_timestamp t" "ts_year t = 2024" by blast
  from shift_to_2025_wf [OF t(2)] t(1,3)
  show "\<exists>t. Deposit_Date w = Some t \<and> ts_year t = 2024
            \<and> shift_to_2025 (Deposit_Date w) =
                (if ts_month t = 2 \<and> ts_day t = 29 then None else Some (same_day_2025 t))"
    by (simp add: same_day_2025_def)
next
  fix r assume "r \<in> set (csv_rows out)"
  from output_row [OF assms(2) this] obtain w where
    w: "w \<in> set (clean (DEPOSIT_ID_COL \<in> set (columns df)) (rows df))" "Year w = Some 2024"
    and o: "Date_2024_Original r = Deposit_Date w"
    and s: "out_Date_2025 r = shift_to_2025 (Deposit_Date w)" "out_Date_2025 r \<noteq> None"
    by blast
  from s obtain t' where t': "shift_to_2025 (Deposit_Date w) = Some t'" by auto
  from shift_to_2025_Some [OF t'] obtain t where
    t: "Deposit_Date w = Some t" "t' = same_day_2025 t" "\<not> (ts_month t = 2 \<and> ts_day t = 29)"
    by (auto simp: same_day_2025_def)
  from clean_row [OF w(1)] t(1) w(2) have "ts_year t = 2024" by auto
  with t t' o s
  show "\<exists>t. Date_2024_Original r = Some t \<and> ts_year t = 2024
            \<and> \<not> (ts_month t = 2 \<and> ts_day t = 29)
            \<and> out_Date_2025 r = Some (same_day_2025 t)
            \<and> ts_year (same_day_2025 t) = 2025
            \<and> ts_month (same_day_2025 t) = ts_month t
            \<and> ts_day (same_day_2025 t) = ts_day t"
    by (intro exI[of _ t]) (simp add: same_day_2025_def)
qed

theorem C1_same_day_in_2025_witness:
  "wf_dataframe example_df \<and> main example_mul example_rs example_df = Written example_out
   \<and> hd example_work \<in> set (base_year_rows example_df)
   \<and> Deposit_Date (hd example_work) = Some (d2024 2 29)
   \<and> shift_to_2025 (Deposit_Date (hd example_work)) = None
   \<and> example_row_c \<in> set (csv_rows example_out)
   \<and> Date_2024_Original example_row_c = Some (d2024 3 1)
   \<and> out_Date_2025 example_row_c = Some (same_day_2025 (d2024 3 1))"
proof -
  have b: "hd example_work \<in> set (base_year_rows example_df)"
    using example_has_id
    by (simp add: base_year_rows_def example_clean) (simp add: example_work_def filter_2024_def)
  have d: "Deposit_Date (hd example_work) = Some (d2024 2 29)" by (simp add: example_work_def)
  have c: "example_row_c \<in> set (csv_rows example_out)" by (simp add: example_out_def)
  have o: "Date_2024_Original example_row_c = Some (d2024 3 1)" by (simp add: example_row_c_def)
  from C1_same_day_in_2025 [OF example_wf example_main] b c
  have 1: "\<exists>t. Deposit_Date (hd example_work) = Some t \<and> ts_year t = 2024
            \<and> shift_to_2025 (Deposit_Date (hd example_work)) =
                (if ts_month t = 2 \<and> ts_day t = 29 then None else Some (same_day_2025 t))"
    and 2: "\<exists>t. Date_2024_Original example_row_c = Some t \<and> ts_year t = 2024
            \<and> \<not> (ts_month t = 2 \<and> ts_day t = 29)
            \<and> out_Date_2025 example_row_c = Some (same_day_2025 t)
            \<and> ts_year (same_day_2025 t) = 2025
            \<and> ts_month (same_day_2025 t) = ts_month t
            \<and> ts_day (same_day_2025 t) = ts_day t"
    by blast+
  from 1 d have s: "shift_to_2025 (Deposit_Date (hd example_work)) = None"
    by (auto simp: d2024_def)
  from 2 o have e: "out_Date_2025 example_row_c = Some (same_day_2025 (d2024 3 1))" by auto
  from example_wf example_main b d s c o e show ?thesis by simp
qed

text \<open>
  Claim C4. For a table whose parsed dates are dates of the calendar, the written table has as
  many rows as the base-year table has rows that are not dated February 29; before the sort
  its rows are the base-year rows other than those of February 29, one for one and in order.
\<close>

theorem C4_row_count:
  assumes "wf_dataframe df" and "main mul rs df = Written out"
  shows "length (csv_rows out) =
           length (base_year_rows df)
             - length (filter (\<lambda>w. is_feb29 (Deposit_Date w)) (base_year_rows df))
       \<and> length (csv_rows out)
             + length (filter (\<lambda>w. is_feb29 (Deposit_Date w)) (base_year_rows df))
           = length (base_year_rows df)
       \<and> map (\<lambda>r. (Deposit_ID r, Deposit_Date r, Depo r, Volume_oz r))
             (make_forecast mul rs (base_year_rows df))
           = map (\<lambda>w. (Deposit_ID w, Deposit_Date w, Depo w, Volume_oz w))
               (filter (\<lambda>w. \<not> is_feb29 (Deposit_Date w)) (base_year_rows df))"
proof -
  let ?B = "base_year_rows df"
  let ?K = "filter (\<lambda>w. \<not> is_feb29 (Deposit_Date w)) ?B"
  have wf: "\<forall>w \<in> set ?B. \<exists>t. Deposit_Date w = Some t \<and> wf_timestamp t"
    using base_year_rows_wf [OF assms(1)] by blast
  have d: "dropna_date_2025 (add_date_2025 ?B) = add_date_2025 ?K"
    by (rule dropna_add_date_2025 [OF wf])
  have l: "length (csv_rows out) = length ?K"
    using length_csv_rows [OF assms(2)] d by (simp add: draws_def add_date_2025_def)
  have s: "length (filter (\<lambda>w. is_feb29 (Deposit_Date w)) ?B) + length ?K = length ?B"
    by (rule sum_length_filter_compl)
  have m: "map (\<lambda>r. (Deposit_ID r, Deposit_Date r, Depo r, Volume_oz r)) (make_forecast mul rs ?B)
           = map (\<lambda>w. (Deposit_ID w, Deposit_Date w, Depo w, Volume_oz w)) ?K"
    unfolding make_forecast_def d
    by (rule nth_equalityI)
       (simp_all add: add_volume_2025_def add_date_2025_def length_uniform)
  from l s m show ?thesis by simp
qed

theorem C4_row_count_witness:
  "wf_dataframe example_df \<and> main example_mul example_rs example_df = Written example_out
   \<and> length (csv_rows example_out) = 3 \<and> length (base_year_rows example_df) = 4
   \<and> length (filter (\<lambda>w. is_feb29 (Deposit_Date w)) (base_year_rows example_df)) = 1"
proof -
  have b: "base_year_rows example_df = filter_2024 example_work"
    using example_has_id by (simp add: base_year_rows_def example_clean)
  have l: "length (base_year_rows example_df) = 4"
    by (simp add: b example_work_def filter_2024_def)
  have c: "length (csv_rows example_out) = 3" by (simp add: example_out_def)
  from C4_row_count [OF example_wf example_main] l c
  have "length (filter (\<lambda>w. is_feb29 (Deposit_Date w)) (base_year_rows example_df)) = 1"
    by simp
  with example_wf example_main l c show ?thesis by simp
qed

subsection \<open>Auxiliary facts about the depots of a year and the sort\<close>

lemma set_unique: "set (unique xs) = set xs"
  by (induction xs rule: unique.induct) auto

lemma depots_of_year_eq:
  "depots_of_year y work = {d. \<exists>r \<in> set work. Year r = Some y \<and> Depo r = d}"
  by (auto simp: depots_of_year_def set_unique)

lemma ts_key_inj: "ts_key a = ts_key b \<longleftrightarrow> a = b"
  by (auto simp: ts_key_def)

lemma map_option_ts_key_inj: "map_option ts_key x = map_option ts_key y \<longleftrightarrow> x = y"
  by (cases x; cases y) (simp_all add: ts_key_inj)

lemma sort_cols_eq: "sort_cols h a = sort_cols h b \<longleftrightarrow> same_keys h a b"
  by (auto simp: sort_cols_def na_last_def same_keys_def map_option_ts_key_inj)

lemma sort_cols_le:
  assumes "out_Date_2025 a = Some ta" "out_Date_2025 b = Some tb"
    and "out_Depo a = Some da" "out_Depo b = Some db"
  shows "sort_cols h a \<le> sort_cols h b \<longleftrightarrow> ascending h a b"
  using assms
  by (cases h; cases "out_Deposit_ID a"; cases "out_Deposit_ID b")
     (auto simp: sort_cols_def na_last_def ascending_def id_le_def)

lemma output_row_keys:
  assumes "main mul rs df = Written out" and "r \<in> set (csv_rows out)"
  shows "\<exists>t d. out_Date_2025 r = Some t \<and> out_Depo r = Some d"
proof -
  from output_row [OF assms] obtain w where
    w: "w \<in> set (clean (DEPOSIT_ID_COL \<in> set (columns df)) (rows df))"
    and d: "out_Depo r = Depo w" and s: "out_Date_2025 r \<noteq> None"
    by blast
  from clean_row [OF w] d s show ?thesis by auto
qed


text \<open>
  Claim C3. The year-gap set of the cleaned table is the set of depots with a row in 2023
  minus the set of depots with a row in 2024. It is empty exactly when every depot of 2023 has
  a row in 2024. No row of the written table carries a depot of the gap set, since the rows
  of the written table come from rows of 2024.
\<close>

theorem C3_year_gap_set:
  "missing_depots work =
       {d. \<exists>r \<in> set work. Year r = Some 2023 \<and> Depo r = d}
     - {d. \<exists>r \<in> set work. Year r = Some 2024 \<and> Depo r = d}
   \<and> (missing_depots work = {} \<longleftrightarrow>
        (\<forall>r \<in> set work. Year r = Some 2023 \<longrightarrow>
            (\<exists>r' \<in> set work. Year r' = Some 2024 \<and> Depo r' = Depo r)))
   \<and> (main mul rs df = Written out \<longrightarrow>
        (\<forall>r \<in> set (csv_rows out).
            out_Depo r \<notin> missing_depots (clean (DEPOSIT_ID_COL \<in> set (columns df)) (rows df))))"
proof (intro conjI impI ballI)
  show a: "missing_depots work =
       {d. \<exists>r \<in> set work. Year r = Some 2023 \<and> Depo r = d}
     - {d. \<exists>r \<in> set work. Year r = Some 2024 \<and> Depo r = d}"
    by (simp add: missing_depots_def depots_of_year_eq)
  show "missing_depots work = {} \<longleftrightarrow>
        (\<forall>r \<in> set work. Year r = Some 2023 \<longrightarrow>
            (\<exists>r' \<in> set work. Year r' = Some 2024 \<and> Depo r' = Depo r))"
    unfolding a by blast
next
  fix r assume m: "main mul rs df = Written out" and r: "r \<in> set (csv_rows out)"
  let ?work = "clean (DEPOSIT_ID_COL \<in> set (columns df)) (rows df)"
  from output_row [OF m r] obtain w where
    w: "w \<in> set ?work" "Year w = Some 2024" "out_Depo r = Depo w" by blast
  then have "out_Depo r \<in> depots_of_year 2024 ?work"
    by (auto simp: depots_of_year_eq)
  then show "out_Depo r \<notin> missing_depots ?work" by (simp add: missing_depots_def)
qed

theorem C3_year_gap_set_witness:
  "missing_depots example_work = {Some 30}
   \<and> main example_mul example_rs example_df = Written example_out
   \<and> example_row_c \<in> set (csv_rows example_out)
   \<and> out_Depo example_row_c \<notin> missing_depots (clean True (rows example_df))"
proof -
  have g: "missing_depots example_work = {Some 30}"
    by (simp add: missing_depots_def depots_of_year_def example_work_def)
  have c: "example_row_c \<in> set (csv_rows example_out)" by (simp add: example_out_def)
  note t = C3_year_gap_set [of example_work example_mul example_rs example_df example_out]
  from t have "main example_mul example_rs example_df = Written example_out \<longrightarrow>
        (\<forall>r \<in> set (csv_rows example_out).
            out_Depo r \<notin> missing_depots
              (clean (DEPOSIT_ID_COL \<in> set (columns example_df)) (rows example_df)))"
    by (rule_tac conjunct2 [OF conjunct2])
  with example_main c example_has_id
  have "out_Depo example_row_c \<notin> missing_depots (clean True (rows example_df))" by simp
  with g example_main c show ?thesis by simp
qed

text \<open>
  Claim C5. The rows of the written table are in ascending order of forecast date, then
  depot, then deposit id when the table has that column: every row compares less than or
  equal to every later row. Rows that are equal on all sort keys are in the order they had
  before the sort, that is the order of the base-year rows they come from.
\<close>

theorem C5_sorted_and_stable:
  assumes "main mul rs df = Written out"
  shows "sorted_wrt (ascending (DEPOSIT_ID_COL \<in> set (columns df))) (csv_rows out)
       \<and> (\<forall>x. filter (same_keys (DEPOSIT_ID_COL \<in> set (columns df)) x) (csv_rows out)
              = filter (same_keys (DEPOSIT_ID_COL \<in> set (columns df)) x)
                  (output_df (make_forecast mul rs (base_year_rows df))))"
proof -
  let ?h = "DEPOSIT_ID_COL \<in> set (columns df)"
  let ?u = "output_df (make_forecast mul rs (base_year_rows df))"
  from main_Written(2) [OF assms]
  have rows: "csv_rows out = sort_key (sort_cols ?h) ?u"
    by (simp add: sort_values_def base_year_rows_def)
  have "sorted (map (sort_cols ?h) (csv_rows out))"
    unfolding rows by (rule sorted_sort_key)
  then have le: "sorted_wrt (\<lambda>a b. sort_cols ?h a \<le> sort_cols ?h b) (csv_rows out)"
    by (simp add: sorted_map)
  have "sorted_wrt (ascending ?h) (csv_rows out)"
  proof (rule sorted_wrt_mono_rel [OF _ le])
    fix a b
    assume a: "a \<in> set (csv_rows out)" and b: "b \<in> set (csv_rows out)"
      and ab: "sort_cols ?h a \<le> sort_cols ?h b"
    from output_row_keys [OF assms a] obtain ta da where
      ka: "out_Date_2025 a = Some ta" "out_Depo a = Some da" by blast
    from output_row_keys [OF assms b] obtain tb db where
      kb: "out_Date_2025 b = Some tb" "out_Depo b = Some db" by blast
    from sort_cols_le [OF ka(1) kb(1) ka(2) kb(2)] ab show "ascending ?h a b" by simp
  qed
  moreover have "\<forall>x. filter (same_keys ?h x) (csv_rows out) = filter (same_keys ?h x) ?u"
  proof
    fix x
    have "filter (\<lambda>y. sort_cols ?h y = sort_cols ?h x) (sort_key (sort_cols ?h) ?u)
            = filter (\<lambda>y. sort_cols ?h y = sort_cols ?h x) ?u"
      by (rule sort_key_stable)
    moreover have "(\<lambda>y. sort_cols ?h y = sort_cols ?h x) = same_keys ?h x"
      by (auto simp: sort_cols_eq same_keys_def)
    ultimately show "filter (same_keys ?h x) (csv_rows out) = filter (same_keys ?h x) ?u"
      by (simp add: rows)
  qed
  ultimately show ?thesis by simp
qed

theorem C5_sorted_and_stable_witness:
  "main example_mul example_rs example_df = Written example_out
   \<and> csv_rows example_out = [example_row_a, example_row_b, example_row_c]
   \<and> ascending True example_row_a example_row_b
   \<and> ascending True example_row_b example_row_c
   \<and> ascending True example_row_a example_row_c"
proof -
  have r: "csv_rows example_out = [example_row_a, example_row_b, example_row_c]"
    by (simp add: example_out_def)
  from C5_sorted_and_stable [OF example_main] example_has_id
  have "sorted_wrt (ascending True) (csv_rows example_out)" by simp
  with example_main r show ?thesis by simp
qed



end
